theory Spec2Isabelle
  imports Main "HOL-Library.Sublist"
begin

section \<open>Data model of src/src/App.jsx\<close>

text \<open>
  Strings are \<open>string\<close>; JS numbers that hold array indices, comparator results and
  millisecond timestamps are \<open>int\<close>. Record fields carry the name of the JS property,
  prefixed where two object shapes share a property name (\<open>id\<close>, \<open>name\<close>).
\<close>

text \<open>
  The \<open>createdAt\<close> property: absent, a store timestamp (an object with a \<open>toDate\<close>
  method, holding milliseconds), or a plain JS \<open>Date\<close> (which has no \<open>toDate\<close>), as
  in \<open>defaultCookie\<close>.
\<close>

datatype created = NoCreatedAt | StoreTimestamp int | PlainDate int

record costume =
  costume_name :: string
  costume_rarity :: string
  costume_avatarUrl :: string
  costume_spriteUrl :: string

record cookie =
  cookie_id :: string
  cookie_name :: string
  avatarUrl :: string
  spriteUrl :: string
  headIconUrl :: string
  rarity :: string
  role :: string
  position :: string
  skillName :: string
  skillDescription :: string
  skillUrl :: string
  elements :: "string list"
  costumes :: "costume list"
  powerUpId :: "string option"
  createdAt :: created

record attribute =
  attr_id :: string
  attr_name :: string
  imageUrl :: "string option"
  allowsPowerUp :: bool
  attr_createdAt :: created

record tier =
  tier_id :: string
  tier_name :: string
  color :: string
  cookieIds :: "string list"

record tierList =
  list_id :: string
  list_name :: string
  tiers :: "tier list"

section \<open>Derived view pipeline\<close>

subsection \<open>String helpers\<close>

text \<open>
  \<open>String.prototype.toLowerCase\<close> is a method of the platform, not of this repository: the
  functions that call it take it as the parameter \<open>toLowerCase\<close>. What the platform
  guarantees and the proofs use is stated by \<open>folds_ascii\<close> below: on a string of ASCII
  characters the method replaces each of the letters A to Z by its small letter and keeps
  every other character. Nothing is assumed of it on other strings.
\<close>

definition upper_letters :: string where
  "upper_letters = ''ABCDEFGHIJKLMNOPQRSTUVWXYZ''"

definition lower_letters :: string where
  "lower_letters = ''abcdefghijklmnopqrstuvwxyz''"

definition fold_char :: "char \<Rightarrow> char" where
  "fold_char c = (case map_of (zip upper_letters lower_letters) c of None \<Rightarrow> c | Some l \<Rightarrow> l)"

definition ascii_fold :: "string \<Rightarrow> string" where
  "ascii_fold s = map fold_char s"



text \<open>\<open>hay.startsWith(needle)\<close> and \<open>hay.includes(needle)\<close>: a scan over the start positions.\<close>

fun startsWith :: "'a list \<Rightarrow> 'a list \<Rightarrow> bool" where
  "startsWith hay [] = True"
| "startsWith [] (n # ns) = False"
| "startsWith (h # hs) (n # ns) = (h = n \<and> startsWith hs ns)"

fun js_includes :: "'a list \<Rightarrow> 'a list \<Rightarrow> bool" where
  "js_includes [] needle = startsWith [] needle"
| "js_includes (h # hs) needle = (startsWith (h # hs) needle \<or> js_includes hs needle)"

subsection \<open>filteredCookies\<close>


text \<open>
  Containment of the search term up to letter case, stated on the characters themselves,
  without any lower-casing: two characters are the same letter when they are equal or one
  is a capital letter and the other its small letter, and the name contains the search
  term when some contiguous stretch of the name agrees with it letter by letter.
\<close>

definition same_letter :: "char \<Rightarrow> char \<Rightarrow> bool" where
  "same_letter a b =
     (a = b \<or> (a, b) \<in> set (zip upper_letters lower_letters)
            \<or> (b, a) \<in> set (zip upper_letters lower_letters))"


subsection \<open>sortedCookies and unrankedCookies\<close>

text \<open>
  \<open>rarityOrder.indexOf(x)\<close>: the first position whose element is strictly equal to \<open>x\<close>,
  and \<open>-1\<close> when there is none.
\<close>

fun indexOf :: "'a list \<Rightarrow> 'a \<Rightarrow> int" where
  "indexOf [] x = - 1"
| "indexOf (y # ys) x =
     (if y = x then 0 else (let i = indexOf ys x in if i < 0 then - 1 else i + 1))"

text \<open>
  \<^verbatim>\<open>a.createdAt?.toDate ? a.createdAt.toDate().getTime() : 0\<close>: only a store timestamp
  has \<open>toDate\<close>.
\<close>

fun timeOf :: "created \<Rightarrow> int" where
  "timeOf (StoreTimestamp ms) = ms"
| "timeOf (PlainDate ms) = 0"
| "timeOf NoCreatedAt = 0"

datatype sort_by = Rarity | Name

datatype sort_dir = Asc | Desc

record sort_state =
  sort_option :: sort_by
  sort_direction :: sort_dir

text \<open>
  The comparator passed to \<open>sort\<close> in \<open>sortedCookies\<close>. The operand
  \<open>rarityOrder.indexOf(a.rarity)\<close> of \<open>??\<close> is always a number, never \<open>null\<close> or
  \<open>undefined\<close>, so the alternative \<open>Infinity\<close> is never taken and the rank is the
  result of \<open>indexOf\<close> itself. \<open>localeCompare\<close> is the platform's string collation,
  taken as a parameter.
\<close>

definition compareCookies ::
  "(string \<Rightarrow> string \<Rightarrow> int) \<Rightarrow> sort_state \<Rightarrow> attribute list \<Rightarrow> cookie \<Rightarrow> cookie \<Rightarrow> int" where
  "compareCookies localeCompare sortSpec rarities a b =
     (let comparison =
        (if sort_option sortSpec = Rarity then
           (let rarityOrder = map attr_name rarities;
                comparison = indexOf rarityOrder (rarity a) - indexOf rarityOrder (rarity b)
            in if comparison = 0
               then timeOf (createdAt a) - timeOf (createdAt b)
               else comparison)
         else localeCompare (cookie_name a) (cookie_name b))
      in if sort_direction sortSpec = Asc then comparison else - comparison)"

text \<open>
  \<open>Array.prototype.sort\<close> with a comparator is a stable sort: \<open>x\<close> stays in front of
  \<open>y\<close> unless the comparator returns a positive number for \<open>(x, y)\<close>.
\<close>

fun insert_by :: "('a \<Rightarrow> 'a \<Rightarrow> int) \<Rightarrow> 'a \<Rightarrow> 'a list \<Rightarrow> 'a list" where
  "insert_by cmp x [] = [x]"
| "insert_by cmp x (y # ys) =
     (if cmp x y \<le> 0 then x # y # ys else y # insert_by cmp x ys)"

definition js_sort :: "('a \<Rightarrow> 'a \<Rightarrow> int) \<Rightarrow> 'a list \<Rightarrow> 'a list" where
  "js_sort cmp xs = foldr (insert_by cmp) xs []"

definition sortedCookies ::
  "(string \<Rightarrow> string \<Rightarrow> int) \<Rightarrow> cookie list \<Rightarrow> sort_state \<Rightarrow> attribute list \<Rightarrow> cookie list" where
  "sortedCookies localeCompare filtered sortSpec rarities =
     js_sort (compareCookies localeCompare sortSpec rarities) filtered"

definition allRankedCookies :: "tier list \<Rightarrow> string set" where
  "allRankedCookies ts = set (concat (map cookieIds ts))"

definition unrankedCookies ::
  "(string \<Rightarrow> string) \<Rightarrow> cookie list \<Rightarrow> tier list \<Rightarrow> string \<Rightarrow> attribute list \<Rightarrow> cookie list" where
  "unrankedCookies toLowerCase cookies ts unrankedSearch rarities =
     (let rarityOrder = map attr_name rarities
      in js_sort (\<lambda>a b. indexOf rarityOrder (rarity a) - indexOf rarityOrder (rarity b))
           (filter (\<lambda>c. cookie_id c \<notin> allRankedCookies ts
                        \<and> js_includes (toLowerCase (cookie_name c)) (toLowerCase unrankedSearch))
              cookies))"

subsection \<open>cookieTiersMap\<close>

text \<open>
  The values of the lookup object: \<open>{pvp?: tierName, pve?: tierName}\<close>. The object
  itself is used as a dictionary from cookie identifiers to such values; cookie
  identifiers are document identifiers assigned by the store, and none of them is taken to
  be the name of a property that every JS object inherits.
\<close>

record placement =
  entry_pvp :: "string option"
  entry_pve :: "string option"

datatype list_kind = PvP | PvE

text \<open>\<^verbatim>\<open>if (!map[id]) map[id] = {}; map[id][type] = tier.name;\<close>\<close>

definition record_placement ::
  "list_kind \<Rightarrow> string \<Rightarrow> (string \<rightharpoonup> placement) \<Rightarrow> string \<Rightarrow> (string \<rightharpoonup> placement)" where
  "record_placement type nm m i =
     (let e = (case m i of None \<Rightarrow> \<lparr>entry_pvp = None, entry_pve = None\<rparr> | Some e \<Rightarrow> e)
      in m(i \<mapsto> (case type of PvP \<Rightarrow> e\<lparr>entry_pvp := Some nm\<rparr>
                             | PvE \<Rightarrow> e\<lparr>entry_pve := Some nm\<rparr>)))"

text \<open>
  \<open>processTierList\<close>: the two nested \<open>forEach\<close> loops. Its guard
  \<open>tierList && tierList.tiers\<close> holds for every value of type \<open>tierList\<close>.
\<close>

definition processTierList ::
  "tierList \<Rightarrow> list_kind \<Rightarrow> (string \<rightharpoonup> placement) \<Rightarrow> (string \<rightharpoonup> placement)" where
  "processTierList tierList type m =
     foldl (\<lambda>m t. foldl (record_placement type (tier_name t)) m (cookieIds t)) m (tiers tierList)"

record tierLists =
  pvp :: tierList
  pve :: tierList

definition cookieTiersMap :: "tierLists \<Rightarrow> (string \<rightharpoonup> placement)" where
  "cookieTiersMap tls = processTierList (pve tls) PvE (processTierList (pvp tls) PvP Map.empty)"

text \<open>What a reader of the lookup sees for a cookie: \<open>map[id]?.pvp\<close> and \<open>map[id]?.pve\<close>.\<close>

definition lookup_pvp :: "(string \<rightharpoonup> placement) \<Rightarrow> string \<Rightarrow> string option" where
  "lookup_pvp m i = (case m i of None \<Rightarrow> None | Some e \<Rightarrow> entry_pvp e)"

definition lookup_pve :: "(string \<rightharpoonup> placement) \<Rightarrow> string \<Rightarrow> string option" where
  "lookup_pve m i = (case m i of None \<Rightarrow> None | Some e \<Rightarrow> entry_pve e)"

section \<open>Tier list engine\<close>

subsection \<open>The per-list invariant\<close>

text \<open>No cookie identifier is in the \<open>cookieIds\<close> of two tiers of the list.\<close>

fun tier_invariant :: "tier list \<Rightarrow> bool" where
  "tier_invariant [] = True"
| "tier_invariant (t # ts) =
     ((\<forall>u \<in> set ts. set (cookieIds t) \<inter> set (cookieIds u) = {}) \<and> tier_invariant ts)"

subsection \<open>handleDrop\<close>

text \<open>\<^verbatim>\<open>{ ...tier, cookieIds: tier.cookieIds.filter(id => id !== draggedCookieId) }\<close>\<close>

definition removeCookie :: "string \<Rightarrow> tier \<Rightarrow> tier" where
  "removeCookie c t = t\<lparr>cookieIds := filter (\<lambda>i. i \<noteq> c) (cookieIds t)\<rparr>"

text \<open>
  \<^verbatim>\<open>const targetTier = newTiers.find(t => t.id === targetTierId);
  if (targetTier) { targetTier.cookieIds.push(draggedCookieId); }\<close>
  \<open>find\<close> yields the first tier with that identifier, and the \<open>push\<close> changes that
  element of \<open>newTiers\<close>.
\<close>

fun pushToTarget :: "string \<Rightarrow> string \<Rightarrow> tier list \<Rightarrow> tier list" where
  "pushToTarget targetTierId c [] = []"
| "pushToTarget targetTierId c (t # ts) =
     (if tier_id t = targetTierId
      then t\<lparr>cookieIds := cookieIds t @ [c]\<rparr> # ts
      else t # pushToTarget targetTierId c ts)"

text \<open>The array \<open>newTiers\<close> that \<open>handleDrop\<close> builds and hands to \<open>onSave\<close>.\<close>

definition newTiers :: "string \<Rightarrow> string \<Rightarrow> tier list \<Rightarrow> tier list" where
  "newTiers draggedCookieId targetTierId ts =
     (if targetTierId \<noteq> ''unranked''
      then pushToTarget targetTierId draggedCookieId (map (removeCookie draggedCookieId) ts)
      else map (removeCookie draggedCookieId) ts)"

text \<open>
  \<open>handleDrop\<close>: the list handed to \<open>onSave\<close>, or \<open>None\<close> when the handler returns
  before saving (\<open>draggedCookieId\<close> is \<open>null\<close> or the empty string).
\<close>

definition handleDrop :: "tierList \<Rightarrow> string option \<Rightarrow> string \<Rightarrow> tierList option" where
  "handleDrop activeTierList draggedCookieId targetTierId =
     (case draggedCookieId of
        None \<Rightarrow> None
      | Some c \<Rightarrow>
          if c = [] then None
          else Some (activeTierList\<lparr>tiers := newTiers c targetTierId (tiers activeTierList)\<rparr>))"

text \<open>
  \<open>moveCookie\<close>: \<open>handleDragStart\<close> with the cookie, then \<open>handleDrop\<close> on the target;
  the result is the list as it stands after the save (the old list when nothing is saved).
\<close>

definition moveCookie :: "tierList \<Rightarrow> string \<Rightarrow> string \<Rightarrow> tierList" where
  "moveCookie activeTierList cookieId targetTierId =
     (case handleDrop activeTierList (Some cookieId) targetTierId of
        None \<Rightarrow> activeTierList
      | Some newList \<Rightarrow> newList)"

definition moveCookies :: "tierList \<Rightarrow> (string \<times> string) list \<Rightarrow> tierList" where
  "moveCookies tierList ops = foldl (\<lambda>l (c, target). moveCookie l c target) tierList ops"

subsection \<open>addTier\<close>

text \<open>\<open>Number.prototype.toString\<close> on an integer: its decimal digits, with a sign.\<close>

definition digit_char :: "nat \<Rightarrow> char" where
  "digit_char d = char_of (48 + d)"

fun digits :: "nat \<Rightarrow> string" where
  "digits n = (if n < 10 then [digit_char n] else digits (n div 10) @ [digit_char (n mod 10)])"

declare digits.simps [simp del]

definition toString :: "int \<Rightarrow> string" where
  "toString i = (if i < 0 then CHR ''-'' # digits (nat (- i)) else digits (nat i))"

text \<open>
  \<open>addTier\<close> of the tier editor; \<open>now\<close> is the value \<open>Date.now()\<close> returns at the call
  (milliseconds on the wall clock).
\<close>

definition addTier :: "tier list \<Rightarrow> int \<Rightarrow> tier list" where
  "addTier ts now =
     ts @ [\<lparr>tier_id = toString now, tier_name = ''New Tier'', color = ''bg-gray-500'',
            cookieIds = []\<rparr>]"

subsection \<open>Default data and the snapshot handlers\<close>

text \<open>The four objects of the array literal bound to \<open>defaultTiers\<close>, as first created.\<close>

definition seedTiers :: "tier list" where
  "seedTiers =
     [\<lparr>tier_id = ''S'', tier_name = ''S'', color = ''bg-red-500'', cookieIds = []\<rparr>,
      \<lparr>tier_id = ''A'', tier_name = ''A'', color = ''bg-orange-500'', cookieIds = []\<rparr>,
      \<lparr>tier_id = ''B'', tier_name = ''B'', color = ''bg-yellow-500'', cookieIds = []\<rparr>,
      \<lparr>tier_id = ''C'', tier_name = ''C'', color = ''bg-green-500'', cookieIds = []\<rparr>]"

text \<open>
  Tier objects are mutable and shared: \<open>defaultPvpTierList\<close>, \<open>defaultPveTierList\<close>, the
  \<open>tierLists\<close> state and the tier editor's \<open>tiers\<close> state can all hold the same tier
  objects. The heap lists the tier objects by address; an array of tiers is the list of
  the addresses of its elements. The module-level \<open>defaultTiers\<close> holds the addresses 0
  to 3, and a freshly loaded module has \<open>seedTiers\<close> there.
\<close>

type_synonym addr = nat

type_synonym heap = "tier list"

definition initial_heap :: heap where
  "initial_heap = seedTiers"

definition defaultTiers :: "addr list" where
  "defaultTiers = [0, 1, 2, 3]"

record tierListObj =
  obj_id :: string
  obj_name :: string
  obj_tiers :: "addr list"

definition defaultPvpTierList :: tierListObj where
  "defaultPvpTierList =
     \<lparr>obj_id = ''pvp-tier-list'', obj_name = ''PvP Tier List'', obj_tiers = defaultTiers\<rparr>"

definition defaultPveTierList :: tierListObj where
  "defaultPveTierList =
     \<lparr>obj_id = ''pve-tier-list'', obj_name = ''PvE Tier List'', obj_tiers = defaultTiers\<rparr>"

text \<open>
  A document of the \<open>tierlists\<close> collection as the snapshot delivers it: its \<open>tiers\<close>
  field is an array of tiers or something else (absent, or the old object-based shape).
\<close>

datatype tiers_field = NotAnArray | TierArray "tier list"

record tierlist_doc =
  doc_id :: string
  doc_name :: string
  doc_tiers :: tiers_field

text \<open>
  One list of the \<open>tierlists\<close> branch of the snapshot handler:
  \<^verbatim>\<open>const pvpData = data.find(d => d.id === 'pvp-tier-list') || defaultPvpTierList;
  if (!Array.isArray(pvpData.tiers)) pvpData.tiers = defaultTiers;\<close>
  The tiers of a delivered document are new objects, at new addresses.
\<close>

definition load_tierList ::
  "heap \<Rightarrow> string \<Rightarrow> tierListObj \<Rightarrow> tierlist_doc list \<Rightarrow> heap \<times> tierListObj" where
  "load_tierList h wanted dflt data =
     (case find (\<lambda>d. doc_id d = wanted) data of
        None \<Rightarrow> (h, dflt)
      | Some d \<Rightarrow>
          (case doc_tiers d of
             NotAnArray \<Rightarrow>
               (h, \<lparr>obj_id = doc_id d, obj_name = doc_name d, obj_tiers = defaultTiers\<rparr>)
           | TierArray ts \<Rightarrow>
               (h @ ts, \<lparr>obj_id = doc_id d, obj_name = doc_name d,
                         obj_tiers = [length h ..< length h + length ts]\<rparr>)))"

text \<open>The \<open>tierlists\<close> branch: the new heap and the value given to \<open>setTierLists\<close>.\<close>

definition tierlists_snapshot ::
  "heap \<Rightarrow> tierlist_doc list \<Rightarrow> heap \<times> tierListObj \<times> tierListObj" where
  "tierlists_snapshot h data =
     (let (h1, pvpData) = load_tierList h ''pvp-tier-list'' defaultPvpTierList data;
          (h2, pveData) = load_tierList h1 ''pve-tier-list'' defaultPveTierList data
      in (h2, pvpData, pveData))"

text \<open>What a reader of a tier list object sees: the tiers at its addresses.\<close>

definition deref :: "heap \<Rightarrow> tierListObj \<Rightarrow> tierList" where
  "deref h l = \<lparr>list_id = obj_id l, list_name = obj_name l, tiers = map (\<lambda>a. h ! a) (obj_tiers l)\<rparr>"

definition tierLists_state :: "heap \<Rightarrow> tierlist_doc list \<Rightarrow> tierLists" where
  "tierLists_state h data =
     (let (h', pvpData, pveData) = tierlists_snapshot h data
      in \<lparr>pvp = deref h' pvpData, pve = deref h' pveData\<rparr>)"

text \<open>
  \<open>handleTierChange\<close> of the tier editor:
  \<^verbatim>\<open>const newTiers = [...tiers]; newTiers[index][field] = value; setTiers(newTiers);\<close>
  The copy is a new array of the same tier objects, so the assignment changes the object
  at the address \<open>tiers[index]\<close>. An index outside the array raises a \<open>TypeError\<close>
  (\<open>None\<close>). The result is the heap and the editor's new \<open>tiers\<close> state.
\<close>

datatype tier_field = FieldName | FieldColor

definition handleTierChange ::
  "heap \<Rightarrow> addr list \<Rightarrow> nat \<Rightarrow> tier_field \<Rightarrow> string \<Rightarrow> (heap \<times> addr list) option" where
  "handleTierChange h editorTiers index field val =
     (if index < length editorTiers then
        (let a = editorTiers ! index
         in Some (h[a := (case field of
                            FieldName \<Rightarrow> (h ! a)\<lparr>tier_name := val\<rparr>
                          | FieldColor \<Rightarrow> (h ! a)\<lparr>color := val\<rparr>)],
                  editorTiers))
      else None)"

text \<open>
  The tier editor opened on a tier list (\<open>useState(tierList.tiers || [])\<close>) and one edit
  of the name input of the row \<open>index\<close>: the heap afterwards, whether the editor is then
  saved or cancelled.
\<close>

definition editor_rename :: "heap \<Rightarrow> tierListObj \<Rightarrow> nat \<Rightarrow> string \<Rightarrow> heap" where
  "editor_rename h l index val =
     (case handleTierChange h (obj_tiers l) index FieldName val of
        None \<Rightarrow> h
      | Some (h', editorTiers) \<Rightarrow> h')"

definition defaultCookie :: cookie where
  "defaultCookie =
     \<lparr>cookie_id = ''default-cookie-1'',
      cookie_name = ''GingerBrave'',
      avatarUrl = ''https://static.wikia.nocookie.net/cookierunkingdom/images/b/b5/Cookie_gingerbrave_card.png/revision/latest'',
      spriteUrl = ''https://static.wikia.nocookie.net/cookierunkingdom/images/c/c9/Cookie0001_run.gif/revision/latest'',
      headIconUrl = ''https://static.wikia.nocookie.net/cookierunkingdom/images/e/e0/Cookie0001_head.png/revision/latest'',
      rarity = ''Common'',
      role = ''Charge'',
      position = ''Front'',
      skillName = ''Brave Dash'',
      skillDescription = ''Charges forward, dealing damage to enemies in the way. A classic move of a brave cookie.'',
      skillUrl = ''https://static.wikia.nocookie.net/cookierunkingdom/images/e/ef/SkillIcon_0001.png/revision/latest'',
      elements = [],
      costumes = [],
      powerUpId = None,
      createdAt = PlainDate 0\<rparr>"

text \<open>
  The \<open>cookies\<close> branch of the snapshot handler; \<open>data\<close> is the list of objects built
  from the delivered documents:
  \<^verbatim>\<open>setCookies(data.length > 0 ? data : [defaultCookie])\<close>
\<close>

definition cookies_snapshot :: "cookie list \<Rightarrow> cookie list" where
  "cookies_snapshot data = (if length data > 0 then data else [defaultCookie])"

subsection \<open>handleDelete\<close>

text \<open>
  The writes the confirmed delete action issues, in the order it awaits them. \<open>db\<close> says
  whether the database handle is set. Every write is taken to succeed.
\<close>

datatype store_write = SaveTierList tierList | SaveCookie cookie | DeleteDoc string string

definition handleDelete ::
  "bool \<Rightarrow> cookie list \<Rightarrow> tierLists \<Rightarrow> string \<Rightarrow> string \<Rightarrow> store_write list" where
  "handleDelete db cookies tls collectionName i =
     (if \<not> db then []
      else
        (if collectionName = ''cookies'' then
           (let newPvpTiers = map (removeCookie i) (tiers (pvp tls));
                newPveTiers = map (removeCookie i) (tiers (pve tls))
            in (if newPvpTiers \<noteq> tiers (pvp tls)
                then [SaveTierList ((pvp tls)\<lparr>tiers := newPvpTiers\<rparr>)] else [])
               @ (if newPveTiers \<noteq> tiers (pve tls)
                  then [SaveTierList ((pve tls)\<lparr>tiers := newPveTiers\<rparr>)] else []))
         else [])
        @ (if collectionName = ''powerups'' then
             (case find (\<lambda>c. powerUpId c = Some i) cookies of
                None \<Rightarrow> []
              | Some linkedCookie \<Rightarrow> [SaveCookie (linkedCookie\<lparr>powerUpId := Some []\<rparr>)])
           else [])
        @ [DeleteDoc collectionName i])"

text \<open>
  The tier lists after a write has reached the store and the next snapshot has come back:
  a saved list replaces the document with its identifier, and the handler reads the two
  documents \<open>pvp-tier-list\<close> and \<open>pve-tier-list\<close>.
\<close>

fun apply_write :: "tierLists \<Rightarrow> store_write \<Rightarrow> tierLists" where
  "apply_write tls (SaveTierList l) =
     (if list_id l = ''pvp-tier-list'' then tls\<lparr>pvp := l\<rparr>
      else if list_id l = ''pve-tier-list'' then tls\<lparr>pve := l\<rparr>
      else tls)"
| "apply_write tls (SaveCookie c) = tls"
| "apply_write tls (DeleteDoc collectionName i) = tls"

definition tierLists_after :: "tierLists \<Rightarrow> store_write list \<Rightarrow> tierLists" where
  "tierLists_after tls ws = foldl apply_write tls ws"

section \<open>Example data\<close>

definition mkCookie :: "string \<Rightarrow> string \<Rightarrow> string \<Rightarrow> cookie" where
  "mkCookie i n r =
     \<lparr>cookie_id = i, cookie_name = n, avatarUrl = [], spriteUrl = [], headIconUrl = [],
      rarity = r, role = [], position = [], skillName = [], skillDescription = [],
      skillUrl = [], elements = [], costumes = [], powerUpId = None,
      createdAt = NoCreatedAt\<rparr>"

definition mkRarity :: "string \<Rightarrow> attribute" where
  "mkRarity n =
     \<lparr>attr_id = n, attr_name = n, imageUrl = None, allowsPowerUp = False,
      attr_createdAt = NoCreatedAt\<rparr>"

definition seedList :: tierList where
  "seedList = \<lparr>list_id = ''pvp-tier-list'', list_name = ''PvP Tier List'', tiers = seedTiers\<rparr>"

definition seedListPve :: tierList where
  "seedListPve = \<lparr>list_id = ''pve-tier-list'', list_name = ''PvE Tier List'', tiers = seedTiers\<rparr>"

text \<open>The seeded PvP list with \<open>cookie1\<close> placed in tier \<open>S\<close>.\<close>

definition rankedList :: tierList where
  "rankedList =
     \<lparr>list_id = ''pvp-tier-list'', list_name = ''PvP Tier List'',
      tiers =
        [\<lparr>tier_id = ''S'', tier_name = ''S'', color = ''bg-red-500'', cookieIds = [''cookie1'']\<rparr>,
         \<lparr>tier_id = ''A'', tier_name = ''A'', color = ''bg-orange-500'', cookieIds = []\<rparr>,
         \<lparr>tier_id = ''B'', tier_name = ''B'', color = ''bg-yellow-500'', cookieIds = []\<rparr>,
         \<lparr>tier_id = ''C'', tier_name = ''C'', color = ''bg-green-500'', cookieIds = []\<rparr>]\<rparr>"

definition exampleCookies :: "cookie list" where
  "exampleCookies =
     [mkCookie ''a'' ''Alpha'' ''Common'', mkCookie ''b'' ''Beta'' ''Rare'',
      mkCookie ''x'' ''Xi'' ''Legendary'']"

definition exampleRarities :: "attribute list" where
  "exampleRarities = [mkRarity ''Common'', mkRarity ''Rare'']"

section \<open>Filter\<close>







lemma fold_char_letters:
  "ascii_fold ''GingerBrave'' = ''gingerbrave''"
  "ascii_fold upper_letters = lower_letters"
  "ascii_fold lower_letters = lower_letters"
  "ascii_fold ''0123456789 -_.!?'' = ''0123456789 -_.!?''"
  by (simp_all add: ascii_fold_def fold_char_def upper_letters_def lower_letters_def)

lemma same_letter_examples:
  "same_letter CHR ''G'' CHR ''g''" "same_letter CHR ''g'' CHR ''G''"
  "\<not> same_letter CHR ''G'' CHR ''h''" "\<not> same_letter CHR ''1'' CHR ''Q''"
  by (simp_all add: same_letter_def upper_letters_def lower_letters_def)






section \<open>Sorting by rarity\<close>

lemmas example_defs = rankedList_def seedList_def seedListPve_def seedTiers_def
  exampleCookies_def exampleRarities_def mkCookie_def mkRarity_def

lemma indexOf_ge: "- 1 \<le> indexOf xs x"
  by (induction xs) (auto simp: Let_def)

lemma indexOf_absent: "x \<notin> set xs \<Longrightarrow> indexOf xs x = - 1"
  by (induction xs) (auto simp: Let_def)

lemma indexOf_present: "x \<in> set xs \<Longrightarrow> 0 \<le> indexOf xs x"
  by (induction xs) (auto simp: Let_def)

lemma indexOf_nth:
  "x \<in> set xs \<Longrightarrow> nat (indexOf xs x) < length xs \<and> xs ! nat (indexOf xs x) = x"
proof (induction xs)
  case Nil
  then show ?case by simp
next
  case (Cons y ys)
  show ?case
  proof (cases "y = x")
    case True
    then show ?thesis by simp
  next
    case False
    with Cons.prems have in_ys: "x \<in> set ys" by simp
    then have ge: "0 \<le> indexOf ys x" by (rule indexOf_present)
    from Cons.IH[OF in_ys] have ih: "nat (indexOf ys x) < length ys" "ys ! nat (indexOf ys x) = x"
      by simp_all
    from ge have "nat (indexOf ys x + 1) = Suc (nat (indexOf ys x))" by simp
    with False ge ih show ?thesis by (simp add: Let_def)
  qed
qed

lemma absent_rarity_compares_first:
  assumes "rarity a \<notin> set (map attr_name rarities)"
    and "rarity b \<in> set (map attr_name rarities)"
  shows "compareCookies localeCompare \<lparr>sort_option = Rarity, sort_direction = Asc\<rparr> rarities a b < 0"
proof -
  from assms(1) have "indexOf (map attr_name rarities) (rarity a) = - 1" by (rule indexOf_absent)
  moreover from assms(2) have "0 \<le> indexOf (map attr_name rarities) (rarity b)"
    by (rule indexOf_present)
  ultimately show ?thesis by (simp add: compareCookies_def Let_def)
qed

lemma set_insert_by: "set (insert_by cmp x xs) = insert x (set xs)"
  by (induction xs) auto

lemma length_insert_by: "length (insert_by cmp x xs) = Suc (length xs)"
  by (induction xs) auto

lemma set_js_sort: "set (js_sort cmp xs) = set xs"
  unfolding js_sort_def by (induction xs) (simp_all add: set_insert_by)

lemma length_js_sort: "length (js_sort cmp xs) = length xs"
  unfolding js_sort_def by (induction xs) (simp_all add: length_insert_by)

lemma sorted_insert_by:
  assumes total: "\<And>a b. cmp a b \<le> 0 \<or> cmp b a \<le> 0"
    and trans: "\<And>a b c. cmp a b \<le> 0 \<Longrightarrow> cmp b c \<le> 0 \<Longrightarrow> cmp a c \<le> 0"
  shows "sorted_wrt (\<lambda>a b. cmp a b \<le> 0) xs \<Longrightarrow> sorted_wrt (\<lambda>a b. cmp a b \<le> 0) (insert_by cmp x xs)"
proof (induction xs)
  case Nil
  then show ?case by simp
next
  case (Cons y ys)
  show ?case
  proof (cases "cmp x y \<le> 0")
    case True
    have "cmp x z \<le> 0" if "z \<in> set ys" for z
    proof -
      from Cons.prems that have "cmp y z \<le> 0" by simp
      with True show ?thesis by (rule trans)
    qed
    with True Cons.prems show ?thesis by simp
  next
    case False
    with total[of x y] have yx: "cmp y x \<le> 0" by simp
    from Cons.prems have "sorted_wrt (\<lambda>a b. cmp a b \<le> 0) ys" by simp
    then have "sorted_wrt (\<lambda>a b. cmp a b \<le> 0) (insert_by cmp x ys)" by (rule Cons.IH)
    moreover from Cons.prems yx have "\<forall>z \<in> set (insert_by cmp x ys). cmp y z \<le> 0"
      by (simp add: set_insert_by)
    ultimately show ?thesis using False by simp
  qed
qed

lemma sorted_js_sort:
  assumes total: "\<And>a b. cmp a b \<le> 0 \<or> cmp b a \<le> 0"
    and trans: "\<And>a b c. cmp a b \<le> 0 \<Longrightarrow> cmp b c \<le> 0 \<Longrightarrow> cmp a c \<le> 0"
  shows "sorted_wrt (\<lambda>a b. cmp a b \<le> 0) (js_sort cmp xs)"
  unfolding js_sort_def
proof (induction xs)
  case Nil
  then show ?case by simp
next
  case (Cons x xs)
  from total trans Cons.IH have "sorted_wrt (\<lambda>a b. cmp a b \<le> 0) (insert_by cmp x (foldr (insert_by cmp) xs []))"
    by (rule sorted_insert_by)
  then show ?case by simp
qed

lemma compare_rarity_asc:
  "compareCookies localeCompare \<lparr>sort_option = Rarity, sort_direction = Asc\<rparr> rarities a b \<le> 0
   \<longleftrightarrow> indexOf (map attr_name rarities) (rarity a) < indexOf (map attr_name rarities) (rarity b)
       \<or> (indexOf (map attr_name rarities) (rarity a) = indexOf (map attr_name rarities) (rarity b)
          \<and> timeOf (createdAt a) \<le> timeOf (createdAt b))"
  by (auto simp: compareCookies_def Let_def)

lemma sortedCookies_rarity_asc_sorted:
  "sorted_wrt (\<lambda>a b. compareCookies localeCompare \<lparr>sort_option = Rarity, sort_direction = Asc\<rparr> rarities a b \<le> 0)
     (sortedCookies localeCompare filtered \<lparr>sort_option = Rarity, sort_direction = Asc\<rparr> rarities)"
  unfolding sortedCookies_def
proof (rule sorted_js_sort)
  fix a b
  show "compareCookies localeCompare \<lparr>sort_option = Rarity, sort_direction = Asc\<rparr> rarities a b \<le> 0
        \<or> compareCookies localeCompare \<lparr>sort_option = Rarity, sort_direction = Asc\<rparr> rarities b a \<le> 0"
    unfolding compare_rarity_asc by linarith
next
  fix a b c
  assume "compareCookies localeCompare \<lparr>sort_option = Rarity, sort_direction = Asc\<rparr> rarities a b \<le> 0"
    and "compareCookies localeCompare \<lparr>sort_option = Rarity, sort_direction = Asc\<rparr> rarities b c \<le> 0"
  then show "compareCookies localeCompare \<lparr>sort_option = Rarity, sort_direction = Asc\<rparr> rarities a c \<le> 0"
    unfolding compare_rarity_asc by linarith
qed

lemma absent_rarity_never_after_present:
  assumes "i < j"
    and "j < length (sortedCookies localeCompare filtered \<lparr>sort_option = Rarity, sort_direction = Asc\<rparr> rarities)"
    and "rarity (sortedCookies localeCompare filtered \<lparr>sort_option = Rarity, sort_direction = Asc\<rparr> rarities ! i)
           \<in> set (map attr_name rarities)"
  shows "rarity (sortedCookies localeCompare filtered \<lparr>sort_option = Rarity, sort_direction = Asc\<rparr> rarities ! j)
           \<in> set (map attr_name rarities)"
proof (rule ccontr)
  let ?r = "sortedCookies localeCompare filtered \<lparr>sort_option = Rarity, sort_direction = Asc\<rparr> rarities"
  assume absent: "rarity (?r ! j) \<notin> set (map attr_name rarities)"
  from sortedCookies_rarity_asc_sorted[of localeCompare rarities filtered] assms(1,2)
  have "compareCookies localeCompare \<lparr>sort_option = Rarity, sort_direction = Asc\<rparr> rarities (?r ! i) (?r ! j) \<le> 0"
    by (simp add: sorted_wrt_iff_nth_less)
  moreover from absent assms(3)
  have "compareCookies localeCompare \<lparr>sort_option = Rarity, sort_direction = Asc\<rparr> rarities (?r ! j) (?r ! i) < 0"
    by (rule absent_rarity_compares_first)
  ultimately show False
    unfolding compare_rarity_asc
    by (simp add: compareCookies_def Let_def split: if_splits)
qed


lemma sort_scenarios:
  "map cookie_id (sortedCookies localeCompare
       [mkCookie ''A'' ''A'' ''Epic'', mkCookie ''B'' ''B'' ''Common'', mkCookie ''C'' ''C'' ''Rare'']
       \<lparr>sort_option = Rarity, sort_direction = Asc\<rparr>
       [mkRarity ''Common'', mkRarity ''Rare'', mkRarity ''Epic'']) = [''B'', ''C'', ''A'']"
  "map cookie_id (sortedCookies localeCompare
       [mkCookie ''A'' ''A'' ''Epic'', mkCookie ''B'' ''B'' ''Common'', mkCookie ''C'' ''C'' ''Rare'']
       \<lparr>sort_option = Rarity, sort_direction = Desc\<rparr>
       [mkRarity ''Common'', mkRarity ''Rare'', mkRarity ''Epic'']) = [''A'', ''C'', ''B'']"
  by (simp_all add: sortedCookies_def js_sort_def compareCookies_def mkCookie_def mkRarity_def)


text \<open>
  C1. The claim: under \<open>option = rarity\<close>, \<open>direction = asc\<close> every cookie whose rarity is
  not in the registry comes after every cookie whose rarity is. The code at a registry
  \<open>[Common, Rare]\<close> and the cookies \<open>a\<close> (Common), \<open>b\<close> (Rare), \<open>x\<close> (Legendary, not in
  the registry): \<open>x\<close> comes first, in \<open>sortedCookies\<close> and in \<open>unrankedCookies\<close> (with
  an empty search, whatever the platform's \<open>toLowerCase\<close> does on other strings).
\<close>

theorem C1_absent_rarity_sorts_first:
  "map cookie_id (sortedCookies localeCompare exampleCookies
       \<lparr>sort_option = Rarity, sort_direction = Asc\<rparr> exampleRarities) = [''x'', ''a'', ''b'']
   \<and> ''Legendary'' \<notin> set (map attr_name exampleRarities)
   \<and> (toLowerCase [] = [] \<longrightarrow>
        map cookie_id (unrankedCookies toLowerCase exampleCookies seedTiers [] exampleRarities)
          = [''x'', ''a'', ''b''])"
proof -
  have sorted: "map cookie_id (sortedCookies localeCompare exampleCookies
       \<lparr>sort_option = Rarity, sort_direction = Asc\<rparr> exampleRarities) = [''x'', ''a'', ''b'']"
    by (simp add: sortedCookies_def js_sort_def compareCookies_def example_defs)
  have absent: "''Legendary'' \<notin> set (map attr_name exampleRarities)"
    by (simp add: example_defs)
  have all: "js_includes hay ([] :: string)" for hay
    by (cases hay) simp_all
  have unranked: "map cookie_id (unrankedCookies toLowerCase exampleCookies seedTiers [] exampleRarities)
          = [''x'', ''a'', ''b'']" if "toLowerCase [] = []"
    using that all
    by (simp add: unrankedCookies_def js_sort_def allRankedCookies_def example_defs)
  from sorted absent unranked show ?thesis by blast
qed

theorem C1_witness:
  "ascii_fold [] = []
   \<and> map cookie_id (unrankedCookies ascii_fold exampleCookies seedTiers [] exampleRarities)
       = [''x'', ''a'', ''b'']"
proof -
  have h: "ascii_fold [] = []" by (simp add: ascii_fold_def)
  from C1_absent_rarity_sorts_first[of _ ascii_fold] h
  have "map cookie_id (unrankedCookies ascii_fold exampleCookies seedTiers [] exampleRarities)
       = [''x'', ''a'', ''b'']"
    by blast
  with h show ?thesis by (intro conjI)
qed

section \<open>The tier invariant and handleDrop\<close>

lemma tier_invariant_nth:
  "tier_invariant ts \<Longrightarrow> i < j \<Longrightarrow> j < length ts \<Longrightarrow>
     set (cookieIds (ts ! i)) \<inter> set (cookieIds (ts ! j)) = {}"
proof (induction ts arbitrary: i j)
  case Nil
  then show ?case by simp
next
  case (Cons t ts)
  from Cons.prems obtain j' where j: "j = Suc j'" "j' < length ts"
    by (cases j) auto
  show ?case
  proof (cases i)
    case 0
    from j have "ts ! j' \<in> set ts" by simp
    with Cons.prems(1) have "set (cookieIds t) \<inter> set (cookieIds (ts ! j')) = {}" by simp
    with 0 j show ?thesis by simp
  next
    case (Suc i')
    with Cons.prems j have lt: "i' < j'" by simp
    from Cons.prems(1) have "tier_invariant ts" by simp
    then have "set (cookieIds (ts ! i')) \<inter> set (cookieIds (ts ! j')) = {}"
      using lt j(2) by (rule Cons.IH)
    with Suc j show ?thesis by simp
  qed
qed

lemma tier_invariant_index:
  "tier_invariant ts \<longleftrightarrow>
     (\<forall>i j. i < j \<and> j < length ts \<longrightarrow>
        set (cookieIds (ts ! i)) \<inter> set (cookieIds (ts ! j)) = {})"
proof
  assume "tier_invariant ts"
  then show "\<forall>i j. i < j \<and> j < length ts \<longrightarrow>
        set (cookieIds (ts ! i)) \<inter> set (cookieIds (ts ! j)) = {}"
    using tier_invariant_nth by blast
next
  show "\<forall>i j. i < j \<and> j < length ts \<longrightarrow>
        set (cookieIds (ts ! i)) \<inter> set (cookieIds (ts ! j)) = {} \<Longrightarrow> tier_invariant ts"
  proof (induction ts)
    case Nil
    then show ?case by simp
  next
    case (Cons t ts)
    have head: "set (cookieIds t) \<inter> set (cookieIds u) = {}" if "u \<in> set ts" for u
    proof -
      from that obtain k where k: "k < length ts" "ts ! k = u" by (auto simp: in_set_conv_nth)
      have "0 < Suc k \<and> Suc k < length (t # ts)" using k by simp
      with Cons.prems have "set (cookieIds ((t # ts) ! 0)) \<inter> set (cookieIds ((t # ts) ! Suc k)) = {}"
        by blast
      with k show ?thesis by simp
    qed
    have "set (cookieIds (ts ! i)) \<inter> set (cookieIds (ts ! j)) = {}"
      if "i < j \<and> j < length ts" for i j
    proof -
      from that have "Suc i < Suc j \<and> Suc j < length (t # ts)" by simp
      with Cons.prems have "set (cookieIds ((t # ts) ! Suc i)) \<inter> set (cookieIds ((t # ts) ! Suc j)) = {}"
        by blast
      then show ?thesis by simp
    qed
    then have "tier_invariant ts" using Cons.IH by blast
    with head show ?case by simp
  qed
qed

lemma cookieIds_removeCookie [simp]:
  "cookieIds (removeCookie c t) = filter (\<lambda>i. i \<noteq> c) (cookieIds t)"
  by (simp add: removeCookie_def)

lemma tier_id_removeCookie [simp]: "tier_id (removeCookie c t) = tier_id t"
  by (simp add: removeCookie_def)

lemma removeCookie_idem [simp]: "removeCookie c (removeCookie c t) = removeCookie c t"
  by (simp add: removeCookie_def)

lemma removeCookie_pushed [simp]:
  "removeCookie c (t\<lparr>cookieIds := cookieIds t @ [c]\<rparr>) = removeCookie c t"
  by (simp add: removeCookie_def)

lemma filter_neq_id_iff: "filter (\<lambda>i. i \<noteq> c) xs = xs \<longleftrightarrow> c \<notin> set xs"
  by (auto simp: filter_id_conv)

lemma removeCookie_fixed_iff: "removeCookie c t = t \<longleftrightarrow> c \<notin> set (cookieIds t)"
proof
  assume "removeCookie c t = t"
  then have "cookieIds (removeCookie c t) = cookieIds t" by (rule arg_cong)
  then show "c \<notin> set (cookieIds t)" by (simp add: filter_neq_id_iff)
next
  assume "c \<notin> set (cookieIds t)"
  then show "removeCookie c t = t" by (simp add: removeCookie_def filter_neq_id_iff)
qed

lemma tier_invariant_map_removeCookie:
  "tier_invariant ts \<Longrightarrow> tier_invariant (map (removeCookie c) ts)"
  by (induction ts) (auto simp: disjoint_iff)

lemma map_removeCookie_pushToTarget:
  "map (removeCookie c) (pushToTarget target c ts) = map (removeCookie c) ts"
  by (induction ts) auto

lemma pushToTarget_no_target:
  "target \<notin> tier_id ` set ts \<Longrightarrow> pushToTarget target c ts = ts"
  by (induction ts) auto

lemma pushToTarget_member:
  "u \<in> set (pushToTarget target c ts) \<Longrightarrow>
     \<exists>u' \<in> set ts. set (cookieIds u) \<subseteq> insert c (set (cookieIds u'))"
  by (induction ts) (auto split: if_splits)

lemma tier_invariant_pushToTarget:
  "tier_invariant ts \<Longrightarrow> \<forall>t \<in> set ts. c \<notin> set (cookieIds t) \<Longrightarrow>
     tier_invariant (pushToTarget target c ts)"
proof (induction ts)
  case Nil
  then show ?case by simp
next
  case (Cons t ts)
  show ?case
  proof (cases "tier_id t = target")
    case True
    with Cons.prems show ?thesis by (auto simp: disjoint_iff)
  next
    case False
    have "set (cookieIds t) \<inter> set (cookieIds u) = {}" if "u \<in> set (pushToTarget target c ts)" for u
    proof -
      from pushToTarget_member[OF that] obtain u' where
        u': "u' \<in> set ts" "set (cookieIds u) \<subseteq> insert c (set (cookieIds u'))" by blast
      with Cons.prems show ?thesis by (auto simp: disjoint_iff)
    qed
    with False Cons show ?thesis by simp
  qed
qed

lemma moveCookie_eq:
  "moveCookie l c target = (if c = [] then l else l\<lparr>tiers := newTiers c target (tiers l)\<rparr>)"
  unfolding moveCookie_def handleDrop_def by simp

lemma map_removeCookie_newTiers:
  "map (removeCookie c) (newTiers c target ts) = map (removeCookie c) ts"
  unfolding newTiers_def by (simp add: map_removeCookie_pushToTarget)

lemma newTiers_idem: "newTiers c target (newTiers c target ts) = newTiers c target ts"
proof -
  have "newTiers c target (newTiers c target ts) =
        (if target \<noteq> ''unranked''
         then pushToTarget target c (map (removeCookie c) (newTiers c target ts))
         else map (removeCookie c) (newTiers c target ts))"
    by (simp only: newTiers_def[of c target "newTiers c target ts"])
  also have "\<dots> = (if target \<noteq> ''unranked''
         then pushToTarget target c (map (removeCookie c) ts)
         else map (removeCookie c) ts)"
    by (simp only: map_removeCookie_newTiers)
  also have "\<dots> = newTiers c target ts"
    by (simp only: newTiers_def)
  finally show ?thesis .
qed

lemma tier_invariant_newTiers:
  assumes "tier_invariant ts"
  shows "tier_invariant (newTiers c target ts)"
proof -
  have a: "\<forall>t \<in> set (map (removeCookie c) ts). c \<notin> set (cookieIds t)" by simp
  have b: "tier_invariant (map (removeCookie c) ts)"
    using assms by (rule tier_invariant_map_removeCookie)
  from b a have "tier_invariant (pushToTarget target c (map (removeCookie c) ts))"
    by (rule tier_invariant_pushToTarget)
  with b show ?thesis unfolding newTiers_def by presburger
qed

lemma tier_invariant_moveCookie:
  assumes "tier_invariant (tiers l)"
  shows "tier_invariant (tiers (moveCookie l c target))"
  using assms by (simp add: moveCookie_eq tier_invariant_newTiers)

lemma tier_invariant_moveCookies:
  "tier_invariant (tiers l) \<Longrightarrow> tier_invariant (tiers (moveCookies l ops))"
  unfolding moveCookies_def
proof (induction ops arbitrary: l)
  case Nil
  then show ?case by simp
next
  case (Cons op ops)
  obtain c target where op: "op = (c, target)" by (cases op)
  from Cons.prems have "tier_invariant (tiers (moveCookie l c target))"
    by (rule tier_invariant_moveCookie)
  then show ?case using Cons.IH op by simp
qed

text \<open>
  C2. Starting from a tier list in which no cookie identifier is in two tiers, after every
  prefix of any sequence of \<open>moveCookie\<close> operations (any cookie identifier, any target
  tier identifier, \<open>unranked\<close> included) still no cookie identifier is in two tiers.
\<close>

theorem C2_moveCookie_keeps_invariant:
  assumes "tier_invariant (tiers l)"
  shows "\<forall>n \<le> length ops. tier_invariant (tiers (moveCookies l (take n ops)))"
  using assms by (simp add: tier_invariant_moveCookies)

theorem C2_witness:
  "tier_invariant (tiers seedList)
   \<and> tier_invariant (tiers (moveCookies seedList [(''cookie1'', ''A''), (''cookie1'', ''B'')]))"
proof -
  let ?ops = "[(''cookie1'', ''A''), (''cookie1'', ''B'')]"
  have h: "tier_invariant (tiers seedList)" by (simp add: example_defs)
  from C2_moveCookie_keeps_invariant[OF h, of ?ops]
  have "tier_invariant (tiers (moveCookies seedList (take (length ?ops) ?ops)))"
    by blast
  then have "tier_invariant (tiers (moveCookies seedList ?ops))"
    by (simp only: take_all order_refl)
  with h show ?thesis by simp
qed

text \<open>
  C8. \<open>moveCookie\<close> is idempotent: a second move of the same cookie to the same target
  (\<open>unranked\<close> included) leaves the tier list as the first move made it.
\<close>

theorem C8_moveCookie_idempotent:
  "moveCookie (moveCookie l c target) c target = moveCookie l c target"
proof (cases "c = []")
  case True
  then show ?thesis by (simp add: moveCookie_eq)
next
  case False
  then have first: "moveCookie l c target = l\<lparr>tiers := newTiers c target (tiers l)\<rparr>"
    by (simp add: moveCookie_eq)
  from False have "moveCookie (moveCookie l c target) c target =
      (moveCookie l c target)\<lparr>tiers := newTiers c target (tiers (moveCookie l c target))\<rparr>"
    by (simp add: moveCookie_eq)
  also have "\<dots> = l\<lparr>tiers := newTiers c target (newTiers c target (tiers l))\<rparr>"
    by (simp add: first)
  also have "\<dots> = l\<lparr>tiers := newTiers c target (tiers l)\<rparr>"
    by (simp only: newTiers_idem)
  finally show ?thesis by (simp add: first)
qed

lemma map_fixed_iff: "map f xs = xs \<longleftrightarrow> (\<forall>x \<in> set xs. f x = x)"
  by (induction xs) auto

lemma tierList_tiers_update_fixed: "l\<lparr>tiers := ts\<rparr> = l \<longleftrightarrow> ts = tiers l"
proof
  assume "l\<lparr>tiers := ts\<rparr> = l"
  then have "tiers (l\<lparr>tiers := ts\<rparr>) = tiers l" by (rule arg_cong)
  then show "ts = tiers l" by simp
next
  assume "ts = tiers l"
  then show "l\<lparr>tiers := ts\<rparr> = l" by simp
qed

text \<open>
  The claim C3 as it is stated fails: with \<open>cookie1\<close> in tier \<open>S\<close>, a drop onto the
  identifier \<open>Z\<close>, which no tier has, changes the list.
\<close>

theorem C3_counterexample:
  "''Z'' \<notin> tier_id ` set (tiers rankedList) \<and> moveCookie rankedList ''cookie1'' ''Z'' \<noteq> rankedList"
  by (simp add: moveCookie_def handleDrop_def newTiers_def removeCookie_def example_defs)

text \<open>
  C3, as amended. A drop of a dragged cookie onto a target identifier that no tier of the
  list has takes the cookie out of every tier and puts it in none; every other field of
  the list and of its tiers is kept. The list is unchanged exactly when the cookie was in
  no tier before the drop.
\<close>

theorem C3_drop_on_missing_tier_unranks:
  assumes "target \<notin> tier_id ` set (tiers l)" and "c \<noteq> []"
  shows "moveCookie l c target = l\<lparr>tiers := map (removeCookie c) (tiers l)\<rparr>
         \<and> (moveCookie l c target = l \<longleftrightarrow> (\<forall>t \<in> set (tiers l). c \<notin> set (cookieIds t)))"
proof -
  have "tier_id ` set (map (removeCookie c) (tiers l)) = tier_id ` set (tiers l)"
    by (simp add: image_image)
  with assms(1) have "target \<notin> tier_id ` set (map (removeCookie c) (tiers l))"
    by (simp only: not_False_eq_True)
  then have "pushToTarget target c (map (removeCookie c) (tiers l)) = map (removeCookie c) (tiers l)"
    by (rule pushToTarget_no_target)
  then have "newTiers c target (tiers l) = map (removeCookie c) (tiers l)"
    unfolding newTiers_def by simp
  with assms(2) have eq: "moveCookie l c target = l\<lparr>tiers := map (removeCookie c) (tiers l)\<rparr>"
    by (simp add: moveCookie_eq)
  have "l\<lparr>tiers := map (removeCookie c) (tiers l)\<rparr> = l \<longleftrightarrow> (\<forall>t \<in> set (tiers l). c \<notin> set (cookieIds t))"
    by (simp only: tierList_tiers_update_fixed map_fixed_iff removeCookie_fixed_iff)
  with eq show ?thesis by simp
qed

theorem C3_witness:
  "''Z'' \<notin> tier_id ` set (tiers rankedList) \<and> ''cookie1'' \<noteq> []
   \<and> moveCookie rankedList ''cookie1'' ''Z'' = seedList"
proof -
  have h1: "''Z'' \<notin> tier_id ` set (tiers rankedList)" by (simp add: example_defs)
  have h2: "''cookie1'' \<noteq> []" by simp
  from C3_drop_on_missing_tier_unranks[OF h1 h2]
  have "moveCookie rankedList ''cookie1'' ''Z'' = rankedList\<lparr>tiers := map (removeCookie ''cookie1'') (tiers rankedList)\<rparr>"
    by simp
  also have "\<dots> = seedList" by (simp add: removeCookie_def example_defs)
  finally show ?thesis using h1 h2 by simp
qed

lemma move_scenarios:
  "moveCookie seedList ''cookie1'' ''S'' = rankedList"
  "map cookieIds (tiers (moveCookie (moveCookie seedList ''cookie1'' ''A'') ''cookie1'' ''B''))
     = [[], [], [''cookie1''], []]"
  "moveCookie rankedList ''cookie1'' ''unranked'' = seedList"
  by (simp_all add: moveCookie_def handleDrop_def newTiers_def removeCookie_def example_defs)


section \<open>cookieTiersMap\<close>

lemma lookup_pvp_record:
  "lookup_pvp (record_placement PvP nm m i) c = (if c = i then Some nm else lookup_pvp m c)"
  by (simp add: lookup_pvp_def record_placement_def Let_def split: option.splits)

lemma lookup_pve_record:
  "lookup_pve (record_placement PvE nm m i) c = (if c = i then Some nm else lookup_pve m c)"
  by (simp add: lookup_pve_def record_placement_def Let_def split: option.splits)

lemma lookup_pvp_record_other:
  "lookup_pvp (record_placement PvE nm m i) c = lookup_pvp m c"
  by (simp add: lookup_pvp_def record_placement_def Let_def split: option.splits)

lemma lookup_pve_record_other:
  "lookup_pve (record_placement PvP nm m i) c = lookup_pve m c"
  by (simp add: lookup_pve_def record_placement_def Let_def split: option.splits)

lemma lookup_pvp_tier:
  "lookup_pvp (foldl (record_placement PvP nm) m ids) c =
     (if c \<in> set ids then Some nm else lookup_pvp m c)"
  by (induction ids arbitrary: m) (simp_all add: lookup_pvp_record)

lemma lookup_pve_tier:
  "lookup_pve (foldl (record_placement PvE nm) m ids) c =
     (if c \<in> set ids then Some nm else lookup_pve m c)"
  by (induction ids arbitrary: m) (simp_all add: lookup_pve_record)

lemma lookup_pvp_tier_other:
  "lookup_pvp (foldl (record_placement PvE nm) m ids) c = lookup_pvp m c"
  by (induction ids arbitrary: m) (simp_all add: lookup_pvp_record_other)

lemma lookup_pve_tier_other:
  "lookup_pve (foldl (record_placement PvP nm) m ids) c = lookup_pve m c"
  by (induction ids arbitrary: m) (simp_all add: lookup_pve_record_other)

lemma lookup_pvp_tiers_other:
  "lookup_pvp (foldl (\<lambda>m t. foldl (record_placement PvE (tier_name t)) m (cookieIds t)) m ts) c
     = lookup_pvp m c"
  by (induction ts arbitrary: m) (simp_all add: lookup_pvp_tier_other)

lemma lookup_pve_tiers_other:
  "lookup_pve (foldl (\<lambda>m t. foldl (record_placement PvP (tier_name t)) m (cookieIds t)) m ts) c
     = lookup_pve m c"
  by (induction ts arbitrary: m) (simp_all add: lookup_pve_tier_other)

lemma lookup_pvp_tiers_absent:
  "\<forall>t \<in> set ts. c \<notin> set (cookieIds t) \<Longrightarrow>
   lookup_pvp (foldl (\<lambda>m t. foldl (record_placement PvP (tier_name t)) m (cookieIds t)) m ts) c
     = lookup_pvp m c"
  by (induction ts arbitrary: m) (simp_all add: lookup_pvp_tier)

lemma lookup_pve_tiers_absent:
  "\<forall>t \<in> set ts. c \<notin> set (cookieIds t) \<Longrightarrow>
   lookup_pve (foldl (\<lambda>m t. foldl (record_placement PvE (tier_name t)) m (cookieIds t)) m ts) c
     = lookup_pve m c"
  by (induction ts arbitrary: m) (simp_all add: lookup_pve_tier)

lemma lookup_pvp_tiers_present:
  "tier_invariant ts \<Longrightarrow> t \<in> set ts \<Longrightarrow> c \<in> set (cookieIds t) \<Longrightarrow>
   lookup_pvp (foldl (\<lambda>m t. foldl (record_placement PvP (tier_name t)) m (cookieIds t)) m ts) c
     = Some (tier_name t)"
proof (induction ts arbitrary: m)
  case Nil
  then show ?case by simp
next
  case (Cons u us)
  show ?case
  proof (cases "c \<in> set (cookieIds u)")
    case True
    with Cons.prems(1) have none: "\<forall>x \<in> set us. c \<notin> set (cookieIds x)"
      by (auto simp: disjoint_iff)
    with Cons.prems(2,3) have "t = u" by auto
    with True none show ?thesis
      by (simp add: lookup_pvp_tiers_absent lookup_pvp_tier)
  next
    case False
    with Cons.prems have "t \<in> set us" by auto
    moreover from Cons.prems(1) have "tier_invariant us" by simp
    ultimately show ?thesis using Cons.IH Cons.prems(3) by simp
  qed
qed

lemma lookup_pve_tiers_present:
  "tier_invariant ts \<Longrightarrow> t \<in> set ts \<Longrightarrow> c \<in> set (cookieIds t) \<Longrightarrow>
   lookup_pve (foldl (\<lambda>m t. foldl (record_placement PvE (tier_name t)) m (cookieIds t)) m ts) c
     = Some (tier_name t)"
proof (induction ts arbitrary: m)
  case Nil
  then show ?case by simp
next
  case (Cons u us)
  show ?case
  proof (cases "c \<in> set (cookieIds u)")
    case True
    with Cons.prems(1) have none: "\<forall>x \<in> set us. c \<notin> set (cookieIds x)"
      by (auto simp: disjoint_iff)
    with Cons.prems(2,3) have "t = u" by auto
    with True none show ?thesis
      by (simp add: lookup_pve_tiers_absent lookup_pve_tier)
  next
    case False
    with Cons.prems have "t \<in> set us" by auto
    moreover from Cons.prems(1) have "tier_invariant us" by simp
    ultimately show ?thesis using Cons.IH Cons.prems(3) by simp
  qed
qed

lemma lookup_pvp_empty: "lookup_pvp Map.empty c = None"
  by (simp add: lookup_pvp_def)

lemma lookup_pve_empty: "lookup_pve Map.empty c = None"
  by (simp add: lookup_pve_def)

text \<open>
  C5. When no cookie identifier is in two tiers of the PvP list, nor in two tiers of the
  PvE list, the lookup holds a \<open>pvp\<close> entry for a cookie identifier exactly when some
  tier of the PvP list has it, and the entry is that tier's name; likewise for \<open>pve\<close>.
\<close>

theorem C5_cookieTiersMap_consistent:
  assumes "tier_invariant (tiers (pvp tls))" and "tier_invariant (tiers (pve tls))"
  shows "(lookup_pvp (cookieTiersMap tls) c \<noteq> None
            \<longleftrightarrow> (\<exists>t \<in> set (tiers (pvp tls)). c \<in> set (cookieIds t)))
       \<and> (\<forall>t \<in> set (tiers (pvp tls)). c \<in> set (cookieIds t) \<longrightarrow>
            lookup_pvp (cookieTiersMap tls) c = Some (tier_name t))
       \<and> (lookup_pve (cookieTiersMap tls) c \<noteq> None
            \<longleftrightarrow> (\<exists>t \<in> set (tiers (pve tls)). c \<in> set (cookieIds t)))
       \<and> (\<forall>t \<in> set (tiers (pve tls)). c \<in> set (cookieIds t) \<longrightarrow>
            lookup_pve (cookieTiersMap tls) c = Some (tier_name t))"
proof -
  have pvp_eq: "lookup_pvp (cookieTiersMap tls) c =
      lookup_pvp (foldl (\<lambda>m t. foldl (record_placement PvP (tier_name t)) m (cookieIds t))
                    Map.empty (tiers (pvp tls))) c"
    by (simp add: cookieTiersMap_def processTierList_def lookup_pvp_tiers_other)
  have a: "lookup_pvp (cookieTiersMap tls) c = Some (tier_name t)"
    if "t \<in> set (tiers (pvp tls))" "c \<in> set (cookieIds t)" for t
    using assms(1) that by (simp add: pvp_eq lookup_pvp_tiers_present)
  have b: "lookup_pvp (cookieTiersMap tls) c = None"
    if "\<forall>t \<in> set (tiers (pvp tls)). c \<notin> set (cookieIds t)"
    using that by (simp add: pvp_eq lookup_pvp_tiers_absent lookup_pvp_empty)
  have c: "lookup_pve (cookieTiersMap tls) c = Some (tier_name t)"
    if "t \<in> set (tiers (pve tls))" "c \<in> set (cookieIds t)" for t
    using assms(2) that
    by (simp add: cookieTiersMap_def processTierList_def lookup_pve_tiers_present)
  have d: "lookup_pve (cookieTiersMap tls) c = None"
    if "\<forall>t \<in> set (tiers (pve tls)). c \<notin> set (cookieIds t)"
    using that
    by (simp add: cookieTiersMap_def processTierList_def lookup_pve_tiers_absent
        lookup_pve_tiers_other lookup_pve_empty)
  have pvp_iff: "lookup_pvp (cookieTiersMap tls) c \<noteq> None
            \<longleftrightarrow> (\<exists>t \<in> set (tiers (pvp tls)). c \<in> set (cookieIds t))"
    using a b by (metis option.distinct(1))
  have pve_iff: "lookup_pve (cookieTiersMap tls) c \<noteq> None
            \<longleftrightarrow> (\<exists>t \<in> set (tiers (pve tls)). c \<in> set (cookieIds t))"
    using c d by (metis option.distinct(1))
  from pvp_iff a pve_iff c show ?thesis by blast
qed

theorem C5_witness:
  "tier_invariant (tiers (pvp \<lparr>pvp = rankedList, pve = seedListPve\<rparr>))
   \<and> tier_invariant (tiers (pve \<lparr>pvp = rankedList, pve = seedListPve\<rparr>))
   \<and> lookup_pvp (cookieTiersMap \<lparr>pvp = rankedList, pve = seedListPve\<rparr>) ''cookie1'' = Some ''S''
   \<and> lookup_pve (cookieTiersMap \<lparr>pvp = rankedList, pve = seedListPve\<rparr>) ''cookie1'' = None"
proof -
  let ?tls = "\<lparr>pvp = rankedList, pve = seedListPve\<rparr>"
  have h1: "tier_invariant (tiers (pvp ?tls))" by (simp add: example_defs)
  have h2: "tier_invariant (tiers (pve ?tls))" by (simp add: example_defs)
  note c5 = C5_cookieTiersMap_consistent[OF h1 h2, of "''cookie1''"]
  have "hd (tiers rankedList) \<in> set (tiers (pvp ?tls))" by (simp add: example_defs)
  moreover have "''cookie1'' \<in> set (cookieIds (hd (tiers rankedList)))" by (simp add: example_defs)
  ultimately have "lookup_pvp (cookieTiersMap ?tls) ''cookie1'' = Some (tier_name (hd (tiers rankedList)))"
    using c5 by blast
  then have a: "lookup_pvp (cookieTiersMap ?tls) ''cookie1'' = Some ''S''" by (simp add: example_defs)
  have "\<not> (\<exists>t \<in> set (tiers (pve ?tls)). ''cookie1'' \<in> set (cookieIds t))" by (simp add: example_defs)
  with c5 have b: "lookup_pve (cookieTiersMap ?tls) ''cookie1'' = None" by blast
  from h1 h2 a b show ?thesis by blast
qed

lemma lookup_scenario:
  "lookup_pvp (cookieTiersMap \<lparr>pvp = rankedList, pve = moveCookie seedListPve ''cookie1'' ''A''\<rparr>) ''cookie1'' = Some ''S''"
  "lookup_pve (cookieTiersMap \<lparr>pvp = rankedList, pve = moveCookie seedListPve ''cookie1'' ''A''\<rparr>) ''cookie1'' = Some ''A''"
  by (simp_all add: cookieTiersMap_def processTierList_def record_placement_def lookup_pvp_def lookup_pve_def
      moveCookie_def handleDrop_def newTiers_def removeCookie_def example_defs)

section \<open>The snapshot handlers\<close>

text \<open>
  C9. A snapshot of the \<open>cookies\<close> collection with no document leaves the cookie list
  with the one built-in cookie (identifier \<open>default-cookie-1\<close>, name \<open>GingerBrave\<close>,
  rarity \<open>Common\<close>, created at epoch 0), so the list is never empty; a snapshot with
  documents makes the list exactly those documents.
\<close>

theorem C9_cookies_snapshot:
  "cookies_snapshot [] = [defaultCookie]
   \<and> cookie_id defaultCookie = ''default-cookie-1''
   \<and> cookie_name defaultCookie = ''GingerBrave''
   \<and> rarity defaultCookie = ''Common''
   \<and> createdAt defaultCookie = PlainDate 0
   \<and> timeOf (createdAt defaultCookie) = 0
   \<and> cookies_snapshot data \<noteq> []
   \<and> (data \<noteq> [] \<longrightarrow> cookies_snapshot data = data)"
proof -
  have empty: "cookies_snapshot [] = [defaultCookie]"
    by (simp add: cookies_snapshot_def)
  have fields: "cookie_id defaultCookie = ''default-cookie-1''
      \<and> cookie_name defaultCookie = ''GingerBrave''
      \<and> rarity defaultCookie = ''Common''
      \<and> createdAt defaultCookie = PlainDate 0
      \<and> timeOf (createdAt defaultCookie) = 0"
    by (simp add: defaultCookie_def)
  have nonempty: "cookies_snapshot data \<noteq> []"
    by (cases data) (simp_all add: cookies_snapshot_def)
  have kept: "data \<noteq> [] \<longrightarrow> cookies_snapshot data = data"
    by (simp add: cookies_snapshot_def)
  from empty fields nonempty kept show ?thesis by blast
qed

theorem C9_witness:
  "[mkCookie ''c1'' ''Pure Vanilla'' ''Ancient''] \<noteq> []
   \<and> cookies_snapshot [mkCookie ''c1'' ''Pure Vanilla'' ''Ancient'']
       = [mkCookie ''c1'' ''Pure Vanilla'' ''Ancient'']"
proof -
  have h: "[mkCookie ''c1'' ''Pure Vanilla'' ''Ancient''] \<noteq> []" by simp
  from C9_cookies_snapshot[of "[mkCookie ''c1'' ''Pure Vanilla'' ''Ancient'']"] h
  have "cookies_snapshot [mkCookie ''c1'' ''Pure Vanilla'' ''Ancient'']
          = [mkCookie ''c1'' ''Pure Vanilla'' ''Ancient'']"
    by blast
  with h show ?thesis by (intro conjI)
qed

lemma seed_prefix_nth:
  assumes "take 4 h = seedTiers"
  shows "4 \<le> length h" and "map (\<lambda>a. (h @ ts) ! a) defaultTiers = seedTiers"
proof -
  from assms have "length (take 4 h) = 4" by (simp add: seedTiers_def)
  then show len: "4 \<le> length h" by simp
  have "(h @ ts) ! k = seedTiers ! k" if "k < 4" for k
  proof -
    from that len have "(h @ ts) ! k = h ! k" by (simp add: nth_append)
    also from that have "\<dots> = take 4 h ! k" by simp
    finally show ?thesis using assms by simp
  qed
  then have "map (\<lambda>a. (h @ ts) ! a) [0, 1, 2, 3] = map (\<lambda>a. seedTiers ! a) [0, 1, 2, 3]"
    by simp
  also have "\<dots> = seedTiers" by (simp add: seedTiers_def)
  finally show "map (\<lambda>a. (h @ ts) ! a) defaultTiers = seedTiers" by (simp add: defaultTiers_def)
qed

lemma snapshot_default_when_seed_untouched:
  assumes "take 4 h = seedTiers"
    and "find (\<lambda>d. doc_id d = ''pvp-tier-list'') data = None
         \<or> (\<exists>d. find (\<lambda>d. doc_id d = ''pvp-tier-list'') data = Some d \<and> doc_tiers d = NotAnArray)"
  shows "tiers (pvp (tierLists_state h data)) = seedTiers"
proof -
  from seed_prefix_nth(2)[OF assms(1), of "[]"]
  have a: "map (\<lambda>a. h ! a) defaultTiers = seedTiers" by simp
  note b = seed_prefix_nth(2)[OF assms(1)]
  from assms(2) show ?thesis
    by (auto simp: tierLists_state_def tierlists_snapshot_def load_tierList_def deref_def
        defaultPvpTierList_def defaultPveTierList_def a b
        split: option.splits tiers_field.splits)
qed

lemma snapshot_default_pve_when_seed_untouched:
  assumes "take 4 h = seedTiers"
    and "find (\<lambda>d. doc_id d = ''pve-tier-list'') data = None
         \<or> (\<exists>d. find (\<lambda>d. doc_id d = ''pve-tier-list'') data = Some d \<and> doc_tiers d = NotAnArray)"
  shows "tiers (pve (tierLists_state h data)) = seedTiers"
proof -
  from seed_prefix_nth(2)[OF assms(1), of "[]"]
  have a: "map (\<lambda>a. h ! a) defaultTiers = seedTiers" by simp
  note b = seed_prefix_nth(2)[OF assms(1)]
  from assms(2) show ?thesis
    by (auto simp: tierLists_state_def tierlists_snapshot_def load_tierList_def deref_def
        defaultPvpTierList_def defaultPveTierList_def a b
        split: option.splits tiers_field.splits)
qed

lemma editor_rename_changes_seed:
  "take 4 (editor_rename initial_heap defaultPvpTierList 0 ''SS'') \<noteq> seedTiers"
  by (simp add: editor_rename_def handleTierChange_def initial_heap_def seedTiers_def
      defaultPvpTierList_def defaultTiers_def)

text \<open>
  C6. The claim: for a missing document, and for a document whose \<open>tiers\<close> is not an
  array, the state of that list is four empty tiers named S, A, B, C. The code on a
  freshly loaded module does that. After the tier editor, opened on the defaulted PvP
  list, has changed the name of the first row to \<open>SS\<close>, the same snapshots give the
  names SS, A, B, C, for the PvP list (no document) and for the PvE list (a document with
  a malformed \<open>tiers\<close>) alike.
\<close>

theorem C6_seed_tier_renamed_through_editor:
  "map tier_name (tiers (pvp (tierLists_state initial_heap []))) = [''S'', ''A'', ''B'', ''C'']
   \<and> map tier_name (tiers (pvp (tierLists_state
        (editor_rename initial_heap defaultPvpTierList 0 ''SS'') []))) = [''SS'', ''A'', ''B'', ''C'']
   \<and> map tier_name (tiers (pve (tierLists_state
        (editor_rename initial_heap defaultPvpTierList 0 ''SS'')
        [\<lparr>doc_id = ''pve-tier-list'', doc_name = ''PvE Tier List'', doc_tiers = NotAnArray\<rparr>])))
      = [''SS'', ''A'', ''B'', ''C'']"
  by (simp add: tierLists_state_def tierlists_snapshot_def load_tierList_def deref_def
      editor_rename_def handleTierChange_def initial_heap_def seedTiers_def defaultTiers_def
      defaultPvpTierList_def defaultPveTierList_def)

section \<open>Deleting a cookie\<close>

lemma map_removeCookie_changed_iff:
  "map (removeCookie i) ts \<noteq> ts \<longleftrightarrow> (\<exists>t \<in> set ts. i \<in> set (cookieIds t))"
  by (simp add: map_fixed_iff removeCookie_fixed_iff)

lemma handleDelete_cookies_writes:
  "handleDelete True cookies tls ''cookies'' i =
     (if \<exists>t \<in> set (tiers (pvp tls)). i \<in> set (cookieIds t)
      then [SaveTierList ((pvp tls)\<lparr>tiers := map (removeCookie i) (tiers (pvp tls))\<rparr>)] else [])
     @ (if \<exists>t \<in> set (tiers (pve tls)). i \<in> set (cookieIds t)
        then [SaveTierList ((pve tls)\<lparr>tiers := map (removeCookie i) (tiers (pve tls))\<rparr>)] else [])
     @ [DeleteDoc ''cookies'' i]"
  unfolding handleDelete_def Let_def map_removeCookie_changed_iff by simp

lemma tierList_tiers_same: "ts = tiers l \<Longrightarrow> l\<lparr>tiers := ts\<rparr> = l"
  by simp

lemma handleDelete_cookies_after:
  assumes "list_id (pvp tls) = ''pvp-tier-list''" and "list_id (pve tls) = ''pve-tier-list''"
  shows "tierLists_after tls (handleDelete True cookies tls ''cookies'' i) =
           \<lparr>pvp = (pvp tls)\<lparr>tiers := map (removeCookie i) (tiers (pvp tls))\<rparr>,
            pve = (pve tls)\<lparr>tiers := map (removeCookie i) (tiers (pve tls))\<rparr>\<rparr>"
proof -
  have p: "(pvp tls)\<lparr>tiers := map (removeCookie i) (tiers (pvp tls))\<rparr> = pvp tls"
    if "\<not> (\<exists>t \<in> set (tiers (pvp tls)). i \<in> set (cookieIds t))"
    using that map_removeCookie_changed_iff[of i "tiers (pvp tls)"] by simp
  have q: "(pve tls)\<lparr>tiers := map (removeCookie i) (tiers (pve tls))\<rparr> = pve tls"
    if "\<not> (\<exists>t \<in> set (tiers (pve tls)). i \<in> set (cookieIds t))"
    using that map_removeCookie_changed_iff[of i "tiers (pve tls)"] by simp
  show ?thesis
  proof (cases "\<exists>t \<in> set (tiers (pvp tls)). i \<in> set (cookieIds t)")
    case True
    show ?thesis
    proof (cases "\<exists>t \<in> set (tiers (pve tls)). i \<in> set (cookieIds t)")
      case True
      with \<open>\<exists>t \<in> set (tiers (pvp tls)). i \<in> set (cookieIds t)\<close> assms show ?thesis
        unfolding handleDelete_cookies_writes tierLists_after_def by simp
    next
      case False
      with \<open>\<exists>t \<in> set (tiers (pvp tls)). i \<in> set (cookieIds t)\<close> assms q show ?thesis
        unfolding handleDelete_cookies_writes tierLists_after_def by simp
    qed
  next
    case False
    note np = this
    show ?thesis
    proof (cases "\<exists>t \<in> set (tiers (pve tls)). i \<in> set (cookieIds t)")
      case True
      with np assms p show ?thesis
        unfolding handleDelete_cookies_writes tierLists_after_def by simp
    next
      case False
      with np assms p q show ?thesis
        unfolding handleDelete_cookies_writes tierLists_after_def by simp
    qed
  qed
qed

text \<open>
  C10. Deleting a cookie (with the database handle set, and the two lists carrying their
  own document identifiers): the action first saves the PvP list and then the PvE list,
  each with the identifier filtered out of every tier and each only if some tier of it
  had the identifier, and deletes the cookie document last. Afterwards no tier of either
  list has the identifier. The filter keeps a tier's identifier, name and colour, and a
  tier that did not have the cookie is unchanged.
\<close>

theorem C10_handleDelete_cookie:
  assumes "list_id (pvp tls) = ''pvp-tier-list''" and "list_id (pve tls) = ''pve-tier-list''"
  shows
   "handleDelete True cookies tls ''cookies'' i =
       (if \<exists>t \<in> set (tiers (pvp tls)). i \<in> set (cookieIds t)
        then [SaveTierList ((pvp tls)\<lparr>tiers := map (removeCookie i) (tiers (pvp tls))\<rparr>)] else [])
       @ (if \<exists>t \<in> set (tiers (pve tls)). i \<in> set (cookieIds t)
          then [SaveTierList ((pve tls)\<lparr>tiers := map (removeCookie i) (tiers (pve tls))\<rparr>)] else [])
       @ [DeleteDoc ''cookies'' i]
    \<and> tierLists_after tls (handleDelete True cookies tls ''cookies'' i) =
         \<lparr>pvp = (pvp tls)\<lparr>tiers := map (removeCookie i) (tiers (pvp tls))\<rparr>,
          pve = (pve tls)\<lparr>tiers := map (removeCookie i) (tiers (pve tls))\<rparr>\<rparr>
    \<and> (\<forall>t \<in> set (tiers (pvp (tierLists_after tls (handleDelete True cookies tls ''cookies'' i)))).
          i \<notin> set (cookieIds t))
    \<and> (\<forall>t \<in> set (tiers (pve (tierLists_after tls (handleDelete True cookies tls ''cookies'' i)))).
          i \<notin> set (cookieIds t))
    \<and> (\<forall>t. tier_id (removeCookie i t) = tier_id t
            \<and> tier_name (removeCookie i t) = tier_name t
            \<and> color (removeCookie i t) = color t
            \<and> cookieIds (removeCookie i t) = filter (\<lambda>j. j \<noteq> i) (cookieIds t)
            \<and> (i \<notin> set (cookieIds t) \<longrightarrow> removeCookie i t = t))"
proof -
  note after = handleDelete_cookies_after[OF assms, of cookies i]
  have a: "\<forall>t \<in> set (tiers (pvp (tierLists_after tls (handleDelete True cookies tls ''cookies'' i)))).
          i \<notin> set (cookieIds t)"
    unfolding after by simp
  have b: "\<forall>t \<in> set (tiers (pve (tierLists_after tls (handleDelete True cookies tls ''cookies'' i)))).
          i \<notin> set (cookieIds t)"
    unfolding after by simp
  have c: "\<forall>t. tier_id (removeCookie i t) = tier_id t
            \<and> tier_name (removeCookie i t) = tier_name t
            \<and> color (removeCookie i t) = color t
            \<and> cookieIds (removeCookie i t) = filter (\<lambda>j. j \<noteq> i) (cookieIds t)
            \<and> (i \<notin> set (cookieIds t) \<longrightarrow> removeCookie i t = t)"
    by (simp add: removeCookie_fixed_iff) (simp add: removeCookie_def)
  from handleDelete_cookies_writes[of cookies tls i] after a b c show ?thesis
    by (intro conjI)
qed

theorem C10_witness:
  "list_id (pvp \<lparr>pvp = rankedList, pve = seedListPve\<rparr>) = ''pvp-tier-list''
   \<and> list_id (pve \<lparr>pvp = rankedList, pve = seedListPve\<rparr>) = ''pve-tier-list''
   \<and> handleDelete True [] \<lparr>pvp = rankedList, pve = seedListPve\<rparr> ''cookies'' ''cookie1''
       = [SaveTierList seedList, DeleteDoc ''cookies'' ''cookie1'']
   \<and> tierLists_after \<lparr>pvp = rankedList, pve = seedListPve\<rparr>
        (handleDelete True [] \<lparr>pvp = rankedList, pve = seedListPve\<rparr> ''cookies'' ''cookie1'')
       = \<lparr>pvp = seedList, pve = seedListPve\<rparr>"
proof -
  let ?tls = "\<lparr>pvp = rankedList, pve = seedListPve\<rparr>"
  have h1: "list_id (pvp ?tls) = ''pvp-tier-list''" by (simp add: example_defs)
  have h2: "list_id (pve ?tls) = ''pve-tier-list''" by (simp add: example_defs)
  note c10 = C10_handleDelete_cookie[OF h1 h2, of "[]" "''cookie1''"]
  from c10 have "handleDelete True [] ?tls ''cookies'' ''cookie1'' =
       (if \<exists>t \<in> set (tiers (pvp ?tls)). ''cookie1'' \<in> set (cookieIds t)
        then [SaveTierList ((pvp ?tls)\<lparr>tiers := map (removeCookie ''cookie1'') (tiers (pvp ?tls))\<rparr>)] else [])
       @ (if \<exists>t \<in> set (tiers (pve ?tls)). ''cookie1'' \<in> set (cookieIds t)
          then [SaveTierList ((pve ?tls)\<lparr>tiers := map (removeCookie ''cookie1'') (tiers (pve ?tls))\<rparr>)] else [])
       @ [DeleteDoc ''cookies'' ''cookie1'']"
    by (rule conjunct1)
  also have "\<dots> = [SaveTierList seedList, DeleteDoc ''cookies'' ''cookie1'']"
    by (simp add: removeCookie_def example_defs)
  finally have a: "handleDelete True [] ?tls ''cookies'' ''cookie1''
       = [SaveTierList seedList, DeleteDoc ''cookies'' ''cookie1'']" .
  from c10 have "tierLists_after ?tls (handleDelete True [] ?tls ''cookies'' ''cookie1'') =
         \<lparr>pvp = (pvp ?tls)\<lparr>tiers := map (removeCookie ''cookie1'') (tiers (pvp ?tls))\<rparr>,
          pve = (pve ?tls)\<lparr>tiers := map (removeCookie ''cookie1'') (tiers (pve ?tls))\<rparr>\<rparr>"
    by (rule conjunct1[OF conjunct2])
  also have "\<dots> = \<lparr>pvp = seedList, pve = seedListPve\<rparr>"
    by (simp add: removeCookie_def example_defs)
  finally have b: "tierLists_after ?tls (handleDelete True [] ?tls ''cookies'' ''cookie1'')
       = \<lparr>pvp = seedList, pve = seedListPve\<rparr>" .
  from h1 h2 a b show ?thesis by (intro conjI)
qed

section \<open>Adding a tier\<close>

lemma digit_char_inj: "d < 10 \<Longrightarrow> e < 10 \<Longrightarrow> digit_char d = digit_char e \<Longrightarrow> d = e"
proof -
  assume d: "d < 10" and e: "e < 10" and eq: "digit_char d = digit_char e"
  from eq have "(of_char (digit_char d) :: nat) = of_char (digit_char e)" by simp
  then have "(48 + d) mod 256 = (48 + e) mod 256" by (simp add: digit_char_def)
  with d e show "d = e" by simp
qed

lemma digit_char_not_minus: "d < 10 \<Longrightarrow> digit_char d \<noteq> CHR ''-''"
proof
  assume d: "d < 10" and eq: "digit_char d = CHR ''-''"
  from eq have "(of_char (digit_char d) :: nat) = of_char (CHR ''-'')" by simp
  then have "(48 + d) mod 256 = 45" by (simp add: digit_char_def)
  with d show False by simp
qed

lemma digits_small: "n < 10 \<Longrightarrow> digits n = [digit_char n]"
  by (subst digits.simps) simp

lemma digits_big: "\<not> n < 10 \<Longrightarrow> digits n = digits (n div 10) @ [digit_char (n mod 10)]"
  by (subst digits.simps) simp

lemma digits_nonempty: "digits n \<noteq> []"
  by (cases "n < 10") (simp_all add: digits_small digits_big)

lemma digits_no_minus: "CHR ''-'' \<notin> set (digits n)"
proof (induction n rule: digits.induct)
  case (1 n)
  show ?case
  proof (cases "n < 10")
    case True
    then show ?thesis using digit_char_not_minus[of n] by (auto simp: digits_small)
  next
    case False
    have "n mod 10 < 10" by simp
    then have "digit_char (n mod 10) \<noteq> CHR ''-''" by (rule digit_char_not_minus)
    with False "1.IH" show ?thesis by (auto simp: digits_big)
  qed
qed

lemma digits_inj: "digits m = digits n \<Longrightarrow> m = n"
proof (induction m arbitrary: n rule: digits.induct)
  case (1 m)
  show ?case
  proof (cases "m < 10")
    case True
    note m = this
    show ?thesis
    proof (cases "n < 10")
      case True
      with m "1.prems" show ?thesis by (simp add: digits_small digit_char_inj)
    next
      case False
      with m "1.prems" have "[digit_char m] = digits (n div 10) @ [digit_char (n mod 10)]"
        by (simp add: digits_small digits_big)
      then have "digits (n div 10) = []" by simp
      then show ?thesis by (simp add: digits_nonempty)
    qed
  next
    case False
    note m = this
    show ?thesis
    proof (cases "n < 10")
      case True
      with m "1.prems" have "digits (m div 10) @ [digit_char (m mod 10)] = [digit_char n]"
        by (simp add: digits_small digits_big)
      then have "digits (m div 10) = []" by simp
      then show ?thesis by (simp add: digits_nonempty)
    next
      case False
      with m "1.prems" have eq: "digits (m div 10) @ [digit_char (m mod 10)]
                              = digits (n div 10) @ [digit_char (n mod 10)]"
        by (simp add: digits_big)
      then have a: "digits (m div 10) = digits (n div 10)"
        and b: "digit_char (m mod 10) = digit_char (n mod 10)" by simp_all
      from a m have "m div 10 = n div 10" by (rule "1.IH"[rotated])
      moreover from b have "m mod 10 = n mod 10" by (intro digit_char_inj) simp_all
      ultimately show ?thesis by (metis div_mult_mod_eq)
    qed
  qed
qed

lemma toString_inj: "toString i = toString j \<Longrightarrow> i = j"
proof -
  assume eq: "toString i = toString j"
  have hd_neg: "hd (toString k) = CHR ''-''" if "k < 0" for k
    using that by (simp add: toString_def)
  have hd_pos: "hd (toString k) \<noteq> CHR ''-''" if "\<not> k < 0" for k
  proof -
    have "hd (digits (nat k)) \<in> set (digits (nat k))" by (simp add: digits_nonempty)
    with digits_no_minus[of "nat k"] that show ?thesis by (auto simp: toString_def)
  qed
  show "i = j"
  proof (cases "i < 0")
    case True
    with eq hd_neg hd_pos have "j < 0" by metis
    with True eq have "digits (nat (- i)) = digits (nat (- j))" by (simp add: toString_def)
    then have "nat (- i) = nat (- j)" by (rule digits_inj)
    with True \<open>j < 0\<close> show ?thesis by simp
  next
    case False
    with eq hd_neg hd_pos have "\<not> j < 0" by metis
    with False eq have "digits (nat i) = digits (nat j)" by (simp add: toString_def)
    then have "nat i = nat j" by (rule digits_inj)
    with False \<open>\<not> j < 0\<close> show ?thesis by simp
  qed
qed

lemma map_tier_id_addTiers:
  "map tier_id (foldl addTier ts clocks) = map tier_id ts @ map toString clocks"
  by (induction clocks arbitrary: ts) (simp_all add: addTier_def)

lemma distinct_map_toString: "distinct (map toString clocks) \<longleftrightarrow> distinct clocks"
  by (simp add: distinct_map inj_on_def) (use toString_inj in blast)

text \<open>
  The claim C4 as it is stated fails: a second \<open>addTier\<close> at the same clock reading
  appends a tier whose identifier is already in the list.
\<close>

theorem C4_counterexample:
  "tier_id (last (addTier (addTier seedTiers 1700000000000) 1700000000000))
     \<in> tier_id ` set (addTier seedTiers 1700000000000)"
  by (simp add: addTier_def)

text \<open>
  C4, as amended. \<open>addTier\<close> appends one tier, named \<open>New Tier\<close>, coloured
  \<open>bg-gray-500\<close>, with no cookies, whose identifier is the decimal string of the clock
  reading at the call. That identifier is new to the list exactly when no tier of the list
  already has that string as its identifier; over a run of additions the identifiers are
  pairwise different exactly when they were so before, the clock readings are pairwise
  different and none of them is already an identifier.
\<close>

theorem C4_addTier_id_from_clock:
  "addTier ts now =
     ts @ [\<lparr>tier_id = toString now, tier_name = ''New Tier'', color = ''bg-gray-500'',
            cookieIds = []\<rparr>]
   \<and> (tier_id (last (addTier ts now)) \<notin> tier_id ` set ts \<longleftrightarrow> toString now \<notin> tier_id ` set ts)
   \<and> (distinct (map tier_id (foldl addTier ts clocks)) \<longleftrightarrow>
        distinct (map tier_id ts) \<and> distinct clocks
        \<and> tier_id ` set ts \<inter> toString ` set clocks = {})"
proof -
  have a: "addTier ts now =
     ts @ [\<lparr>tier_id = toString now, tier_name = ''New Tier'', color = ''bg-gray-500'',
            cookieIds = []\<rparr>]"
    by (simp add: addTier_def)
  have b: "tier_id (last (addTier ts now)) \<notin> tier_id ` set ts \<longleftrightarrow> toString now \<notin> tier_id ` set ts"
    by (simp add: addTier_def)
  have c: "distinct (map tier_id (foldl addTier ts clocks)) \<longleftrightarrow>
        distinct (map tier_id ts) \<and> distinct clocks
        \<and> tier_id ` set ts \<inter> toString ` set clocks = {}"
    by (simp add: map_tier_id_addTiers distinct_map_toString)
  from a b c show ?thesis by (intro conjI)
qed

theorem C4_witness:
  "distinct (map tier_id (foldl addTier seedTiers [1700000000000, 1700000000001]))
   \<and> \<not> distinct (map tier_id (foldl addTier seedTiers [1700000000000, 1700000000000]))"
proof -
  have s: "distinct (map tier_id seedTiers)" by (simp add: seedTiers_def)
  have d: "tier_id ` set seedTiers \<inter> toString ` set [1700000000000, 1700000000001] = {}"
    by (simp add: seedTiers_def toString_def digits.simps digit_char_def)
  from C4_addTier_id_from_clock[of seedTiers 0 "[1700000000000, 1700000000001]"] s d
  have a: "distinct (map tier_id (foldl addTier seedTiers [1700000000000, 1700000000001]))"
    by simp
  from C4_addTier_id_from_clock[of seedTiers 0 "[1700000000000, 1700000000000]"]
  have b: "\<not> distinct (map tier_id (foldl addTier seedTiers [1700000000000, 1700000000000]))"
    by simp
  from a b show ?thesis by (intro conjI)
qed

end
